theory Spec2Isabelle
  imports Complex_Main
begin

section \<open>Numbers of the host language\<close>

text \<open>
  A number of script.js is an IEEE 754 binary64 value: \<open>NaN\<close>, a finite value (carried
  as the real it denotes), or one of the two infinities. Products and quotients are
  rounded to the nearest binary64 value, ties to even, with gradual underflow to zero
  and overflow to infinity (\<open>round64\<close>). Negative zero is identified with zero: the
  code forms products and quotients of positive operands only, and
  \<^verbatim>\<open>parseFloat(s) || 0\<close> maps it to zero, so it never occurs. A value that the source
  sets to \<^verbatim>\<open>null\<close> is \<open>None\<close>.
\<close>

datatype num = NaN | Fin real | PInf | NInf

text \<open>The binary exponent of a non-negative real, searched upwards from the exponent
  of the subnormal range: the least \<open>e \<ge> -1022\<close> with \<open>a < 2 ^ (e + 1)\<close>, at most 1024.\<close>

fun expo_up :: "nat \<Rightarrow> int \<Rightarrow> real \<Rightarrow> int" where
  "expo_up 0 e a = e"
| "expo_up (Suc n) e a = (if a < 2 powi (e + 1) then e else expo_up n (e + 1) a)"

definition expo :: "real \<Rightarrow> int" where
  "expo a = expo_up 2046 (- 1022) a"

text \<open>Rounding of a real to the nearest integer, ties to the even one.\<close>

definition rne :: "real \<Rightarrow> int" where
  "rne y = (let f = \<lfloor>y\<rfloor>; d = y - of_int f
            in if d < 1 / 2 then f
               else if 1 / 2 < d then f + 1
               else if even f then f else f + 1)"

text \<open>Rounding to binary64: the magnitude is rounded to a multiple of the spacing
  \<open>2 ^ (e - 52)\<close> of its binade, and a result of \<open>2 ^ 1024\<close> or more overflows.\<close>

definition round64 :: "real \<Rightarrow> num" where
  "round64 x =
     (let a = \<bar>x\<bar>; q = 2 powi (expo a - 52); m = of_int (rne (a / q)) * q
      in if 2 ^ 1024 \<le> m then (if 0 < x then PInf else NInf)
         else Fin (if 0 \<le> x then m else - m))"

text \<open>The comparisons \<^verbatim>\<open>x > 0\<close> and \<^verbatim>\<open>x < 0\<close>; both are false of \<open>NaN\<close>.\<close>

fun gt0 :: "num \<Rightarrow> bool" where
  "gt0 (Fin a) = (0 < a)"
| "gt0 PInf = True"
| "gt0 NInf = False"
| "gt0 NaN = False"

fun lt0 :: "num \<Rightarrow> bool" where
  "lt0 (Fin a) = (a < 0)"
| "lt0 NInf = True"
| "lt0 PInf = False"
| "lt0 NaN = False"

text \<open>The operators \<^verbatim>\<open>*\<close> and \<^verbatim>\<open>/\<close> on numbers.\<close>

fun mul64 :: "num \<Rightarrow> num \<Rightarrow> num" where
  "mul64 (Fin a) (Fin b) = round64 (a * b)"
| "mul64 NaN y = NaN"
| "mul64 x NaN = NaN"
| "mul64 x y = (if x = Fin 0 \<or> y = Fin 0 then NaN
                else if lt0 x = lt0 y then PInf else NInf)"

fun div64 :: "num \<Rightarrow> num \<Rightarrow> num" where
  "div64 (Fin a) (Fin b) =
     (if b = 0 then (if a = 0 then NaN else if 0 < a then PInf else NInf)
      else round64 (a / b))"
| "div64 NaN y = NaN"
| "div64 x NaN = NaN"
| "div64 (Fin a) y = Fin 0"
| "div64 x (Fin b) = (if lt0 x = (b < 0) then PInf else NInf)"
| "div64 x y = NaN"

text \<open>Truthiness of a value that is a number or \<^verbatim>\<open>null\<close>: \<^verbatim>\<open>null\<close>, zero and
  \<open>NaN\<close> are falsy. \<open>js_or a b\<close> is \<^verbatim>\<open>a || b\<close> for such an \<open>a\<close> and a number \<open>b\<close>.\<close>

fun truthy :: "num option \<Rightarrow> bool" where
  "truthy None = False"
| "truthy (Some NaN) = False"
| "truthy (Some (Fin a)) = (a \<noteq> 0)"
| "truthy (Some PInf) = True"
| "truthy (Some NInf) = True"

definition js_or :: "num option \<Rightarrow> num \<Rightarrow> num" where
  "js_or a b = (case a of None \<Rightarrow> b | Some x \<Rightarrow> if truthy (Some x) then x else b)"

section \<open>Data model of script.js\<close>

text \<open>The object returned by \<^verbatim>\<open>getInputValues\<close> (the Reading). The field
  \<^verbatim>\<open>power\<close> is named \<open>power_w\<close>, since \<open>power\<close> is exponentiation in HOL.\<close>

record reading =
  voltage :: num
  current :: num
  power_w :: num
  time :: num
  tariff :: num

text \<open>The object \<^verbatim>\<open>results\<close> built by \<^verbatim>\<open>calculateAll\<close> (the Derivation).\<close>

record derivation =
  calculatedPower :: "num option"
  calculatedCurrent :: "num option"
  calculatedVoltage :: "num option"
  energy :: "num option"
  cost :: "num option"

section \<open>The derivation engine\<close>

text \<open>\<^verbatim>\<open>Object.values(values)\<close>: the five fields in insertion order.\<close>

definition object_values :: "reading \<Rightarrow> num list" where
  "object_values values =
     [voltage values, current values, power_w values, time values, tariff values]"

definition hasValidInputs :: "reading \<Rightarrow> bool" where
  "hasValidInputs values =
     (let nonZeroValues = filter (\<lambda>v. gt0 v) (object_values values)
      in length nonZeroValues \<ge> 2)"

text \<open>In \<open>calculateAll\<close> the product \<^verbatim>\<open>results.energy * tariff\<close> is formed only
  where the energy is truthy, hence a number.\<close>

definition calculateAll :: "reading \<Rightarrow> derivation" where
  "calculateAll values =
     (let v = voltage values; c = current values; p = power_w values;
          t = time values; tf = tariff values;
          cPower = (if gt0 v \<and> gt0 c then Some (mul64 v c)
                    else if gt0 p then Some p
                    else None);
          cCurrent = (if gt0 p \<and> gt0 v then Some (div64 p v)
                      else if gt0 c then Some c
                      else None);
          cVoltage = (if gt0 p \<and> gt0 c then Some (div64 p c)
                      else if gt0 v then Some v
                      else None);
          effectivePower = js_or cPower p;
          en = (if gt0 effectivePower \<and> gt0 t
                then Some (div64 (mul64 effectivePower t) (Fin 1000))
                else None);
          co = (if truthy en \<and> gt0 tf then map_option (\<lambda>e. mul64 e tf) en
                else None)
      in \<lparr>calculatedPower = cPower, calculatedCurrent = cCurrent,
          calculatedVoltage = cVoltage, energy = en, cost = co\<rparr>)"

section \<open>The input collector\<close>

text \<open>
  The \<^verbatim>\<open>value\<close> strings of the five input elements. \<^verbatim>\<open>parseFloat\<close> is a
  built-in of the host language, so it is a parameter of the model: it maps a string to
  a number, which is \<open>NaN\<close> when no number could be parsed and may be infinite.
  A field is \<^verbatim>\<open>parseFloat(s) || 0\<close>.
\<close>

record elements =
  voltage_value :: string
  current_value :: string
  power_value :: string
  time_value :: string
  tariff_value :: string

definition getInputValues :: "(string \<Rightarrow> num) \<Rightarrow> elements \<Rightarrow> reading" where
  "getInputValues parseFloat els =
     \<lparr>voltage = js_or (Some (parseFloat (voltage_value els))) (Fin 0),
      current = js_or (Some (parseFloat (current_value els))) (Fin 0),
      power_w = js_or (Some (parseFloat (power_value els))) (Fin 0),
      time = js_or (Some (parseFloat (time_value els))) (Fin 0),
      tariff = js_or (Some (parseFloat (tariff_value els))) (Fin 0)\<rparr>"

section \<open>The calculation pipeline and the history\<close>

text \<open>
  The state that \<^verbatim>\<open>performCalculations\<close> reads and writes: the input elements, the
  five result displays (a slot holds the number handed to \<^verbatim>\<open>formatNumber\<close>, or
  \<open>None\<close> when it shows \<^verbatim>\<open>--\<close>), the data of the chart (\<open>None\<close> while
  \<^verbatim>\<open>energyChart\<close> is \<^verbatim>\<open>null\<close>), the array \<^verbatim>\<open>recentCalculations\<close> and the
  array last handed to \<^verbatim>\<open>JSON.stringify\<close> for the entry of local storage under
  the key of the same name (the serialised text is not modelled). The time of a call
  (\<^verbatim>\<open>new Date().toISOString()\<close>) is an argument.
\<close>

record entry =
  timestamp :: string
  inputs :: reading
  results :: derivation

record app =
  inputElements :: elements
  resultDisplays :: derivation
  chartData :: "num list option"
  recentCalculations :: "entry list"
  storedCalculations :: "entry list option"

definition clearResults :: "app \<Rightarrow> app" where
  "clearResults st =
     st\<lparr>resultDisplays :=
          \<lparr>calculatedPower = None, calculatedCurrent = None,
           calculatedVoltage = None, energy = None, cost = None\<rparr>\<rparr>"

definition displayResults :: "derivation \<Rightarrow> app \<Rightarrow> app" where
  "displayResults res st = st\<lparr>resultDisplays := res\<rparr>"

definition updateChart :: "derivation \<Rightarrow> app \<Rightarrow> app" where
  "updateChart res st =
     (case chartData st of
        None \<Rightarrow> st
      | Some _ \<Rightarrow>
          st\<lparr>chartData :=
               Some [js_or (calculatedPower res) (Fin 0), js_or (calculatedCurrent res) (Fin 0),
                     js_or (calculatedVoltage res) (Fin 0), js_or (energy res) (Fin 0),
                     js_or (cost res) (Fin 0)]\<rparr>)"

definition saveCalculation :: "string \<Rightarrow> reading \<Rightarrow> derivation \<Rightarrow> app \<Rightarrow> app" where
  "saveCalculation now ins res st =
     (let calculation = \<lparr>timestamp = now, inputs = ins, results = res\<rparr>;
          unshifted = calculation # recentCalculations st;
          kept = (if length unshifted > 10 then take 10 unshifted else unshifted)
      in st\<lparr>recentCalculations := kept, storedCalculations := Some kept\<rparr>)"

definition performCalculations :: "(string \<Rightarrow> num) \<Rightarrow> string \<Rightarrow> app \<Rightarrow> app" where
  "performCalculations parseFloat now st =
     (let values = getInputValues parseFloat (inputElements st)
      in if \<not> hasValidInputs values then clearResults st
         else (let res = calculateAll values
               in saveCalculation now values res
                    (updateChart res (displayResults res st))))"

section \<open>Notions of the specification\<close>

text \<open>The five fields of a reading, by name.\<close>

datatype field = Voltage | Current | Power | Time | Tariff

fun field_value :: "field \<Rightarrow> reading \<Rightarrow> num" where
  "field_value Voltage r = voltage r"
| "field_value Current r = current r"
| "field_value Power r = power_w r"
| "field_value Time r = time r"
| "field_value Tariff r = tariff r"

fun set_field :: "field \<Rightarrow> num \<Rightarrow> reading \<Rightarrow> reading" where
  "set_field Voltage x r = r\<lparr>voltage := x\<rparr>"
| "set_field Current x r = r\<lparr>current := x\<rparr>"
| "set_field Power x r = r\<lparr>power_w := x\<rparr>"
| "set_field Time x r = r\<lparr>time := x\<rparr>"
| "set_field Tariff x r = r\<lparr>tariff := x\<rparr>"

fun raw_value :: "field \<Rightarrow> elements \<Rightarrow> string" where
  "raw_value Voltage els = voltage_value els"
| "raw_value Current els = current_value els"
| "raw_value Power els = power_value els"
| "raw_value Time els = time_value els"
| "raw_value Tariff els = tariff_value els"

text \<open>Effective power in the words of the specification: the derived power when it is
  determined, otherwise the raw power field.\<close>

definition effective_power :: "reading \<Rightarrow> num" where
  "effective_power r =
     (case calculatedPower (calculateAll r) of Some p \<Rightarrow> p | None \<Rightarrow> power_w r)"

text \<open>Effective power as amended: the derived power when it is determined and not zero,
  otherwise the raw power field.\<close>

definition effective_power_nonzero :: "reading \<Rightarrow> num" where
  "effective_power_nonzero r =
     (case calculatedPower (calculateAll r) of
        Some p \<Rightarrow> if p = Fin 0 then power_w r else p
      | None \<Rightarrow> power_w r)"

text \<open>The values of the determined fields of a derivation.\<close>

definition determined_values :: "derivation \<Rightarrow> num list" where
  "determined_values d =
     concat (map (\<lambda>a. case a of None \<Rightarrow> [] | Some x \<Rightarrow> [x])
       [calculatedPower d, calculatedCurrent d, calculatedVoltage d, energy d, cost d])"

text \<open>A number that is zero, positive or plus infinity; a finite number; a reading of
  finite numbers.\<close>

fun ge0 :: "num \<Rightarrow> bool" where
  "ge0 (Fin a) = (0 \<le> a)"
| "ge0 PInf = True"
| "ge0 NInf = False"
| "ge0 NaN = False"

fun is_finite :: "num \<Rightarrow> bool" where
  "is_finite (Fin a) = True"
| "is_finite PInf = False"
| "is_finite NInf = False"
| "is_finite NaN = False"

definition finite_reading :: "reading \<Rightarrow> bool" where
  "finite_reading r = list_all is_finite (object_values r)"

text \<open>A sequence of record operations, each with its time, reading and derivation,
  applied in order.\<close>

definition record_all :: "(string \<times> reading \<times> derivation) list \<Rightarrow> app \<Rightarrow> app" where
  "record_all ops st = fold (\<lambda>(now, ins, res). saveCalculation now ins res) ops st"

definition entry_of :: "string \<times> reading \<times> derivation \<Rightarrow> entry" where
  "entry_of op = (case op of (now, ins, res) \<Rightarrow> \<lparr>timestamp = now, inputs = ins, results = res\<rparr>)"

text \<open>
  A finite table standing in for \<^verbatim>\<open>parseFloat\<close> in the worked examples. It gives the
  host's answer on the strings of the table, on the empty string and on \<^verbatim>\<open>abc\<close>, and
  is applied to no other string.
\<close>

definition sample_parseFloat :: "string \<Rightarrow> num" where
  "sample_parseFloat s =
     (case map_of [(''230'', Fin 230), (''2'', Fin 2), (''1000'', Fin 1000), (''5'', Fin 5),
                   (''8.5'', Fin (17 / 2)), (''Infinity'', PInf)] s of
        None \<Rightarrow> NaN
      | Some x \<Rightarrow> x)"

section \<open>Facts about rounding\<close>

lemma expo_up_lower: "expo_up n e a = e \<or> 2 powi (expo_up n e a) \<le> a"
proof (induction n arbitrary: e)
  case 0
  then show ?case by simp
next
  case (Suc n)
  show ?case
  proof (cases "a < 2 powi (e + 1)")
    case True
    then show ?thesis by simp
  next
    case False
    with Suc.IH [of "e + 1"] show ?thesis by auto
  qed
qed

lemma expo_lower: "expo a = - 1022 \<or> 2 powi (expo a) \<le> a"
  unfolding expo_def by (rule expo_up_lower)

lemma expo_tiny:
  assumes "a < 2 powi (- 1021)"
  shows "expo a = - 1022"
proof -
  have "(2046::nat) = Suc 2045" by simp
  then have "expo a = expo_up (Suc 2045) (- 1022) a" by (simp only: expo_def)
  also have "\<dots> = - 1022" by (simp only: expo_up.simps) (use assms in simp)
  finally show ?thesis .
qed

lemma rne_of_int: "rne (of_int k) = k"
  by (simp add: rne_def)

lemma rne_nonneg: "0 \<le> y \<Longrightarrow> 0 \<le> rne y"
  by (auto simp: rne_def Let_def)

lemma rne_small:
  assumes "0 \<le> y" "y < 1 / 2"
  shows "rne y = 0"
proof -
  from assms have "\<lfloor>y\<rfloor> = 0" by (simp add: floor_eq_iff)
  with assms show ?thesis by (simp add: rne_def)
qed

text \<open>A value \<open>k * 2 ^ j\<close> with a significand of at most 53 bits and an exponent in
  range is a binary64 value, and rounding leaves it as it is.\<close>

lemma round64_exact:
  assumes k: "\<bar>k\<bar> < 2 ^ 53" and j: "- 1074 \<le> j" "j \<le> 971"
  shows "round64 (of_int k * 2 powi j) = Fin (of_int k * 2 powi j)"
proof -
  let ?x = "of_int k * 2 powi j :: real"
  let ?a = "\<bar>?x\<bar>"
  let ?e = "expo ?a"
  have a: "?a = of_int \<bar>k\<bar> * 2 powi j" by (simp add: abs_mult)
  have "of_int \<bar>k\<bar> < (2::real) ^ 53"
    using k by (metis of_int_less_numeral_power_cancel_iff)
  then have "?a < 2 ^ 53 * 2 powi j" unfolding a by simp
  also have "\<dots> = 2 powi (53 + j)" by (simp add: power_int_add)
  finally have ub: "?a < 2 powi (53 + j)" .
  have e: "?e \<le> j + 52"
  proof (rule ccontr)
    assume n: "\<not> ?e \<le> j + 52"
    with j have "?e \<noteq> - 1022" by simp
    with expo_lower [of ?a] have "2 powi ?e \<le> ?a" by simp
    moreover from n have "(2::real) powi (53 + j) \<le> 2 powi ?e"
      by (intro power_int_increasing) simp_all
    ultimately show False using ub by simp
  qed
  define d where "d = nat (j + 52 - ?e)"
  have "(2::real) powi j / 2 powi (?e - 52) = 2 powi (j - (?e - 52))"
    by (simp add: power_int_diff)
  also have "j - (?e - 52) = int d" using e by (simp add: d_def)
  finally have q: "(2::real) powi j / 2 powi (?e - 52) = 2 ^ d" by simp
  have "?a / 2 powi (?e - 52) = of_int \<bar>k\<bar> * (2 powi j / 2 powi (?e - 52))"
    unfolding a by simp
  also have "\<dots> = of_int (\<bar>k\<bar> * 2 ^ d)" unfolding q by simp
  finally have "rne (?a / 2 powi (?e - 52)) = \<bar>k\<bar> * 2 ^ d" by (simp only: rne_of_int)
  then have "of_int (rne (?a / 2 powi (?e - 52))) * 2 powi (?e - 52)
               = of_int \<bar>k\<bar> * ((2::real) ^ d * 2 powi (?e - 52))" by simp
  also have "(2::real) ^ d * 2 powi (?e - 52) = 2 powi j"
    using q by (simp add: field_simps)
  finally have m: "of_int (rne (?a / 2 powi (?e - 52))) * 2 powi (?e - 52) = ?a"
    by (simp only: a)
  have "(2::real) powi (53 + j) \<le> 2 powi 1024"
    using j by (intro power_int_increasing) simp_all
  with ub have small: "\<not> 2 ^ 1024 \<le> ?a" by simp
  show ?thesis
    unfolding round64_def Let_def m using small by (simp only: if_False) (simp add: abs_if)
qed

text \<open>A non-negative value below half of the least subnormal rounds to zero.\<close>

lemma round64_underflow:
  assumes "0 \<le> x" "x * 2 ^ 1075 < 1"
  shows "round64 x = Fin 0"
proof -
  have ax: "\<bar>x\<bar> = x" using assms(1) by simp
  have "x < 1 / 2 ^ 1075" using assms(2) by (simp add: field_simps)
  moreover have "(1::real) / 2 ^ 1075 \<le> 2 powi (- 1021)"
    by (simp add: power_int_minus field_simps)
  ultimately have "x < 2 powi (- 1021)" by linarith
  then have e: "expo x = - 1022" by (rule expo_tiny)
  have y: "x / 2 powi (- 1022 - 52) = x * 2 ^ 1074"
    by (simp add: power_int_minus field_simps)
  have "x * 2 ^ 1075 = 2 * (x * 2 ^ 1074)" by simp
  with assms(2) have "x * 2 ^ 1074 < 1 / 2" by linarith
  moreover have "0 \<le> x * 2 ^ 1074" using assms(1) by simp
  ultimately have r: "rne (x / 2 powi (- 1022 - 52)) = 0"
    unfolding y by (rule rne_small [rotated])
  show ?thesis unfolding round64_def Let_def ax e r using assms(1) by simp
qed

lemma round64_zero: "round64 0 = Fin 0"
  by (rule round64_underflow) simp_all

lemma round64_ge0:
  assumes "0 \<le> x"
  shows "ge0 (round64 x)"
proof (cases "x = 0")
  case True
  then show ?thesis by (simp add: round64_zero)
next
  case False
  with assms have pos: "0 < x" by simp
  have "0 \<le> rne (\<bar>x\<bar> / 2 powi (expo \<bar>x\<bar> - 52))" by (intro rne_nonneg) simp
  then have "0 \<le> real_of_int (rne (\<bar>x\<bar> / 2 powi (expo \<bar>x\<bar> - 52))) * 2 powi (expo \<bar>x\<bar> - 52)"
    by simp
  with pos show ?thesis by (simp add: round64_def Let_def)
qed

text \<open>The roundings that the worked examples need.\<close>

lemma round64_values:
  "round64 1 = Fin 1"
  "round64 2 = Fin 2"
  "round64 5 = Fin 5"
  "round64 10 = Fin 10"
  "round64 17 = Fin 17"
  "round64 20 = Fin 20"
  "round64 50 = Fin 50"
  "round64 500 = Fin 500"
  "round64 1000 = Fin 1000"
  "round64 2000 = Fin 2000"
  "round64 5000 = Fin 5000"
  "round64 (1 / 2) = Fin (1 / 2)"
  "round64 (17 / 2) = Fin (17 / 2)"
  "round64 (85 / 2) = Fin (85 / 2)"
  using round64_exact [of 1 0] round64_exact [of 2 0] round64_exact [of 5 0]
    round64_exact [of 10 0] round64_exact [of 17 0] round64_exact [of 20 0]
    round64_exact [of 50 0] round64_exact [of 500 0] round64_exact [of 1000 0]
    round64_exact [of 2000 0] round64_exact [of 5000 0] round64_exact [of 1 "- 1"]
    round64_exact [of 17 "- 1"] round64_exact [of 85 "- 1"]
  by simp_all

lemma round64_least_subnormal: "round64 (1 / 2 ^ 1074) = Fin (1 / 2 ^ 1074)"
  using round64_exact [of 1 "- 1074"] by (simp add: power_int_minus field_simps)

section \<open>Facts about the operators\<close>

lemma gt0_ge0: "gt0 x \<Longrightarrow> ge0 x"
  by (cases x) simp_all

lemma ge0_truthy: "ge0 x \<Longrightarrow> truthy (Some x) \<longleftrightarrow> x \<noteq> Fin 0"
  by (cases x) simp_all

lemma ge0_truthy_gt0: "ge0 x \<Longrightarrow> truthy (Some x) \<Longrightarrow> gt0 x"
  by (cases x) simp_all

lemma mul64_pos: "gt0 x \<Longrightarrow> gt0 y \<Longrightarrow> ge0 (mul64 x y)"
  by (cases x; cases y) (simp_all add: round64_ge0)

lemma div64_thousand: "ge0 x \<Longrightarrow> ge0 (div64 x (Fin 1000))"
  by (cases x) (simp_all add: round64_ge0)

section \<open>Equations for the five outputs\<close>

lemma calculatedPower_eq:
  "calculatedPower (calculateAll r) =
     (if gt0 (voltage r) \<and> gt0 (current r) then Some (mul64 (voltage r) (current r))
      else if gt0 (power_w r) then Some (power_w r) else None)"
  by (simp add: calculateAll_def Let_def)

lemma calculatedCurrent_eq:
  "calculatedCurrent (calculateAll r) =
     (if gt0 (power_w r) \<and> gt0 (voltage r) then Some (div64 (power_w r) (voltage r))
      else if gt0 (current r) then Some (current r) else None)"
  by (simp add: calculateAll_def Let_def)

lemma calculatedVoltage_eq:
  "calculatedVoltage (calculateAll r) =
     (if gt0 (power_w r) \<and> gt0 (current r) then Some (div64 (power_w r) (current r))
      else if gt0 (voltage r) then Some (voltage r) else None)"
  by (simp add: calculateAll_def Let_def)

lemma energy_eq:
  "energy (calculateAll r) =
     (if gt0 (js_or (calculatedPower (calculateAll r)) (power_w r)) \<and> gt0 (time r)
      then Some (div64 (mul64 (js_or (calculatedPower (calculateAll r)) (power_w r)) (time r))
                   (Fin 1000))
      else None)"
  by (simp add: calculateAll_def Let_def)

lemma cost_eq:
  "cost (calculateAll r) =
     (if truthy (energy (calculateAll r)) \<and> gt0 (tariff r)
      then map_option (\<lambda>e. mul64 e (tariff r)) (energy (calculateAll r))
      else None)"
  by (simp add: calculateAll_def Let_def)

section \<open>Determined outputs are not negative\<close>

lemma calculatedPower_ge0: "calculatedPower (calculateAll r) = Some x \<Longrightarrow> ge0 x"
  by (auto simp: calculatedPower_eq mul64_pos gt0_ge0 split: if_splits)

lemma energy_ge0:
  assumes "energy (calculateAll r) = Some x"
  shows "ge0 x"
proof -
  let ?ep = "js_or (calculatedPower (calculateAll r)) (power_w r)"
  from assms have g: "gt0 ?ep \<and> gt0 (time r)" and x: "x = div64 (mul64 ?ep (time r)) (Fin 1000)"
    by (auto simp: energy_eq [of r] split: if_splits)
  from g have "ge0 (mul64 ?ep (time r))" by (simp add: mul64_pos)
  then show ?thesis unfolding x by (rule div64_thousand)
qed

lemma cost_ge0:
  assumes "cost (calculateAll r) = Some x"
  shows "ge0 x"
proof -
  from assms obtain e where e: "energy (calculateAll r) = Some e"
    and t: "truthy (Some e)" "gt0 (tariff r)" and x: "x = mul64 e (tariff r)"
    by (auto simp: cost_eq [of r] split: if_splits)
  from e have "ge0 e" by (rule energy_ge0)
  from this t(1) have "gt0 e" by (rule ge0_truthy_gt0)
  with t(2) show ?thesis unfolding x by (simp add: mul64_pos)
qed

lemma calculatedCurrent_ge0:
  assumes "finite_reading r" "calculatedCurrent (calculateAll r) = Some x"
  shows "ge0 x"
proof -
  from assms(1) obtain p v where "power_w r = Fin p" "voltage r = Fin v"
    by (cases "power_w r"; cases "voltage r")
       (simp_all add: finite_reading_def object_values_def)
  with assms(2) show ?thesis
    by (auto simp: calculatedCurrent_eq round64_ge0 gt0_ge0 split: if_splits)
qed

lemma calculatedVoltage_ge0:
  assumes "finite_reading r" "calculatedVoltage (calculateAll r) = Some x"
  shows "ge0 x"
proof -
  from assms(1) obtain p c where "power_w r = Fin p" "current r = Fin c"
    by (cases "power_w r"; cases "current r")
       (simp_all add: finite_reading_def object_values_def)
  with assms(2) show ?thesis
    by (auto simp: calculatedVoltage_eq round64_ge0 gt0_ge0 split: if_splits)
qed

text \<open>The \<^verbatim>\<open>||\<close> of the source picks the derived power unless it is \<^verbatim>\<open>null\<close> or
  zero; a derived power is never \<open>NaN\<close>.\<close>

lemma js_or_effective_power_nonzero:
  "js_or (calculatedPower (calculateAll r)) (power_w r) = effective_power_nonzero r"
proof (cases "calculatedPower (calculateAll r)")
  case None
  then show ?thesis by (simp add: js_or_def effective_power_nonzero_def)
next
  case (Some x)
  then have "ge0 x" by (rule calculatedPower_ge0)
  then have "truthy (Some x) \<longleftrightarrow> x \<noteq> Fin 0" by (rule ge0_truthy)
  with Some show ?thesis by (simp add: js_or_def effective_power_nonzero_def)
qed

lemma determined_values_iff:
  "x \<in> set (determined_values d) \<longleftrightarrow>
     calculatedPower d = Some x \<or> calculatedCurrent d = Some x \<or>
     calculatedVoltage d = Some x \<or> energy d = Some x \<or> cost d = Some x"
  by (auto simp: determined_values_def split: option.splits)

section \<open>Precedence of the three electrical quantities\<close>

text \<open>
  Claim C1. For every usable reading: the derived power is voltage times current when
  both are positive, else the supplied power when positive, else undetermined; the
  derived current is raw power over voltage when both are positive, else the supplied
  current when positive, else undetermined; the derived voltage is raw power over
  current when both are positive, else the supplied voltage when positive, else
  undetermined. Product and quotient are those of the host's numbers.
\<close>

theorem calculateAll_precedence:
  assumes "hasValidInputs r"
  shows "calculatedPower (calculateAll r) =
           (if gt0 (voltage r) \<and> gt0 (current r) then Some (mul64 (voltage r) (current r))
            else if gt0 (power_w r) then Some (power_w r) else None)
       \<and> calculatedCurrent (calculateAll r) =
           (if gt0 (power_w r) \<and> gt0 (voltage r) then Some (div64 (power_w r) (voltage r))
            else if gt0 (current r) then Some (current r) else None)
       \<and> calculatedVoltage (calculateAll r) =
           (if gt0 (power_w r) \<and> gt0 (current r) then Some (div64 (power_w r) (current r))
            else if gt0 (voltage r) then Some (voltage r) else None)"
  by (simp only: calculatedPower_eq calculatedCurrent_eq calculatedVoltage_eq simp_thms)

text \<open>Power 500 and voltage 250: the current is reconstructed as 2, power and voltage
  are passed through.\<close>

theorem calculateAll_precedence_witness:
  "hasValidInputs
     \<lparr>voltage = Fin 250, current = Fin 0, power_w = Fin 500, time = Fin 0, tariff = Fin 0\<rparr>
   \<and> calculatedPower (calculateAll
        \<lparr>voltage = Fin 250, current = Fin 0, power_w = Fin 500, time = Fin 0, tariff = Fin 0\<rparr>)
       = Some (Fin 500)
   \<and> calculatedCurrent (calculateAll
        \<lparr>voltage = Fin 250, current = Fin 0, power_w = Fin 500, time = Fin 0, tariff = Fin 0\<rparr>)
       = Some (Fin 2)
   \<and> calculatedVoltage (calculateAll
        \<lparr>voltage = Fin 250, current = Fin 0, power_w = Fin 500, time = Fin 0, tariff = Fin 0\<rparr>)
       = Some (Fin 250)"
proof -
  have h: "hasValidInputs
     \<lparr>voltage = Fin 250, current = Fin 0, power_w = Fin 500, time = Fin 0, tariff = Fin 0\<rparr>"
    by (simp add: hasValidInputs_def object_values_def)
  show ?thesis
    using h calculateAll_precedence [OF h] by (simp add: round64_values)
qed

section \<open>Energy and cost\<close>

text \<open>
  Claim C2, as stated, fails. Voltage and current are both \<open>2 ^ -600\<close>, power is 100
  and time is 5: the reading is usable, the product of voltage and current underflows,
  so the derived power is determined and zero, the effective power of the
  specification is that zero and is not positive, and yet the energy is determined:
  the source falls back to the raw power and yields 0.5.
\<close>

theorem energy_effective_power_counterexample:
  "hasValidInputs
     \<lparr>voltage = Fin (1 / 2 ^ 600), current = Fin (1 / 2 ^ 600), power_w = Fin 100,
      time = Fin 5, tariff = Fin 0\<rparr>
   \<and> calculatedPower (calculateAll
        \<lparr>voltage = Fin (1 / 2 ^ 600), current = Fin (1 / 2 ^ 600), power_w = Fin 100,
         time = Fin 5, tariff = Fin 0\<rparr>) = Some (Fin 0)
   \<and> effective_power
        \<lparr>voltage = Fin (1 / 2 ^ 600), current = Fin (1 / 2 ^ 600), power_w = Fin 100,
         time = Fin 5, tariff = Fin 0\<rparr> = Fin 0
   \<and> \<not> gt0 (Fin 0)
   \<and> energy (calculateAll
        \<lparr>voltage = Fin (1 / 2 ^ 600), current = Fin (1 / 2 ^ 600), power_w = Fin 100,
         time = Fin 5, tariff = Fin 0\<rparr>) = Some (Fin (1 / 2))"
proof -
  define s where "s = (1::real) / 2 ^ 600"
  let ?r = "\<lparr>voltage = Fin s, current = Fin s, power_w = Fin 100,
      time = Fin 5, tariff = Fin 0\<rparr>"
  have spos: "0 < s" by (simp add: s_def)
  have u: "round64 (s * s) = Fin 0"
    unfolding s_def by (rule round64_underflow) simp_all
  have h: "hasValidInputs ?r" by (simp add: hasValidInputs_def object_values_def spos)
  have p: "calculatedPower (calculateAll ?r) = Some (Fin 0)"
    by (simp add: calculatedPower_eq spos u)
  have e: "effective_power ?r = Fin 0" by (simp only: effective_power_def p option.case)
  have "js_or (calculatedPower (calculateAll ?r)) (power_w ?r) = Fin 100"
    by (simp only: p) (simp add: js_or_def)
  then have en: "energy (calculateAll ?r) = Some (Fin (1 / 2))"
    by (simp only: energy_eq) (simp add: round64_values)
  show ?thesis unfolding s_def [symmetric] using h p e en by simp
qed

text \<open>
  Claim C2, amended. For every usable reading, with the effective power being the
  derived power when it is determined and not zero, and the raw power field otherwise:
  the energy is determined exactly when the effective power and the time are both
  positive, and is then effective power times time over 1000, in the arithmetic of the
  host. The amended effective power is that of the specification whenever the derived
  power is not zero. The reading with power 1000 and time 5 yields power 1000 and
  energy 5, with current, voltage and cost undetermined.
\<close>

theorem energy_from_effective_power_nonzero:
  assumes "hasValidInputs r"
  shows "energy (calculateAll r) =
           (if gt0 (effective_power_nonzero r) \<and> gt0 (time r)
            then Some (div64 (mul64 (effective_power_nonzero r) (time r)) (Fin 1000))
            else None)
       \<and> (calculatedPower (calculateAll r) \<noteq> Some (Fin 0) \<longrightarrow>
            effective_power_nonzero r = effective_power r)
       \<and> calculateAll
           \<lparr>voltage = Fin 0, current = Fin 0, power_w = Fin 1000, time = Fin 5,
            tariff = Fin 0\<rparr>
           = \<lparr>calculatedPower = Some (Fin 1000), calculatedCurrent = None,
              calculatedVoltage = None, energy = Some (Fin 5), cost = None\<rparr>"
proof (intro conjI impI)
  show "energy (calculateAll r) =
          (if gt0 (effective_power_nonzero r) \<and> gt0 (time r)
           then Some (div64 (mul64 (effective_power_nonzero r) (time r)) (Fin 1000))
           else None)"
    using energy_eq [of r] by (simp only: js_or_effective_power_nonzero)
  show "calculateAll
           \<lparr>voltage = Fin 0, current = Fin 0, power_w = Fin 1000, time = Fin 5,
            tariff = Fin 0\<rparr>
           = \<lparr>calculatedPower = Some (Fin 1000), calculatedCurrent = None,
              calculatedVoltage = None, energy = Some (Fin 5), cost = None\<rparr>"
    by (simp add: calculateAll_def js_or_def Let_def round64_values)
next
  assume "calculatedPower (calculateAll r) \<noteq> Some (Fin 0)"
  then show "effective_power_nonzero r = effective_power r"
    by (auto simp: effective_power_nonzero_def effective_power_def split: option.splits)
qed

text \<open>Voltage 250, current 2 and 4 hours: the effective power is the product 500 and
  the energy is 2 kWh.\<close>

theorem energy_from_effective_power_nonzero_witness:
  "hasValidInputs
     \<lparr>voltage = Fin 250, current = Fin 2, power_w = Fin 0, time = Fin 4, tariff = Fin 0\<rparr>
   \<and> calculatedPower (calculateAll
        \<lparr>voltage = Fin 250, current = Fin 2, power_w = Fin 0, time = Fin 4, tariff = Fin 0\<rparr>)
       \<noteq> Some (Fin 0)
   \<and> effective_power
        \<lparr>voltage = Fin 250, current = Fin 2, power_w = Fin 0, time = Fin 4, tariff = Fin 0\<rparr>
       = Fin 500
   \<and> energy (calculateAll
        \<lparr>voltage = Fin 250, current = Fin 2, power_w = Fin 0, time = Fin 4, tariff = Fin 0\<rparr>)
       = Some (Fin 2)"
proof -
  let ?r = "\<lparr>voltage = Fin 250, current = Fin 2, power_w = Fin 0, time = Fin 4,
      tariff = Fin 0\<rparr>"
  have h: "hasValidInputs ?r" by (simp add: hasValidInputs_def object_values_def)
  have p: "calculatedPower (calculateAll ?r) = Some (Fin 500)"
    by (simp add: calculatedPower_eq round64_values)
  have n: "calculatedPower (calculateAll ?r) \<noteq> Some (Fin 0)" by (simp add: p)
  have e: "effective_power ?r = Fin 500" by (simp add: effective_power_def p)
  from energy_from_effective_power_nonzero [OF h] n
  have z: "effective_power_nonzero ?r = Fin 500"
    and en: "energy (calculateAll ?r) =
          (if gt0 (effective_power_nonzero ?r) \<and> gt0 (time ?r)
           then Some (div64 (mul64 (effective_power_nonzero ?r) (time ?r)) (Fin 1000))
           else None)"
    by (simp_all only: e simp_thms)
  from en have "energy (calculateAll ?r) = Some (Fin 2)"
    by (simp only: z) (simp add: round64_values)
  with h n e show ?thesis by simp
qed

text \<open>
  Claim C3, as stated, fails. Power is the least positive number \<open>2 ^ -1074\<close>, time 1
  and tariff 1: the reading is usable, the energy is determined and is zero, because
  the division by 1000 underflows, the tariff is positive, and the cost is
  undetermined.
\<close>

theorem cost_energy_counterexample:
  "hasValidInputs
     \<lparr>voltage = Fin 0, current = Fin 0, power_w = Fin (1 / 2 ^ 1074), time = Fin 1,
      tariff = Fin 1\<rparr>
   \<and> energy (calculateAll
        \<lparr>voltage = Fin 0, current = Fin 0, power_w = Fin (1 / 2 ^ 1074), time = Fin 1,
         tariff = Fin 1\<rparr>) = Some (Fin 0)
   \<and> gt0 (Fin 1)
   \<and> cost (calculateAll
        \<lparr>voltage = Fin 0, current = Fin 0, power_w = Fin (1 / 2 ^ 1074), time = Fin 1,
         tariff = Fin 1\<rparr>) = None"
proof -
  define s where "s = (1::real) / 2 ^ 1074"
  let ?r = "\<lparr>voltage = Fin 0, current = Fin 0, power_w = Fin s, time = Fin 1,
      tariff = Fin 1\<rparr>"
  have spos: "0 < s" by (simp add: s_def)
  have rs: "round64 s = Fin s" unfolding s_def by (rule round64_least_subnormal)
  have u: "round64 (s / 1000) = Fin 0"
    unfolding s_def by (rule round64_underflow) simp_all
  have h: "hasValidInputs ?r" by (simp add: hasValidInputs_def object_values_def spos)
  have p: "calculatedPower (calculateAll ?r) = Some (Fin s)"
    by (simp add: calculatedPower_eq spos)
  have "js_or (calculatedPower (calculateAll ?r)) (power_w ?r) = Fin s"
    using spos by (simp add: p js_or_def)
  then have en: "energy (calculateAll ?r) = Some (Fin 0)"
    by (simp only: energy_eq) (simp add: spos rs u)
  have c: "cost (calculateAll ?r) = None"
    by (simp only: cost_eq en) simp
  show ?thesis unfolding s_def [symmetric] using h en c by simp
qed

text \<open>
  Claim C3, amended. For every usable reading, the cost is determined exactly when the
  energy is determined and not zero and the tariff is positive, and is then energy
  times tariff, in the arithmetic of the host. The reading with power 1000, time 5 and
  tariff 8.5 yields energy 5 and cost 42.5.
\<close>

theorem cost_from_nonzero_energy:
  assumes "hasValidInputs r"
  shows "cost (calculateAll r) =
           (case energy (calculateAll r) of
              None \<Rightarrow> None
            | Some e \<Rightarrow> if e \<noteq> Fin 0 \<and> gt0 (tariff r) then Some (mul64 e (tariff r))
                        else None)
       \<and> energy (calculateAll
            \<lparr>voltage = Fin 0, current = Fin 0, power_w = Fin 1000, time = Fin 5,
             tariff = Fin (17 / 2)\<rparr>) = Some (Fin 5)
       \<and> cost (calculateAll
            \<lparr>voltage = Fin 0, current = Fin 0, power_w = Fin 1000, time = Fin 5,
             tariff = Fin (17 / 2)\<rparr>) = Some (Fin (85 / 2))"
proof
  show "cost (calculateAll r) =
          (case energy (calculateAll r) of
             None \<Rightarrow> None
           | Some e \<Rightarrow> if e \<noteq> Fin 0 \<and> gt0 (tariff r) then Some (mul64 e (tariff r))
                       else None)"
  proof (cases "energy (calculateAll r)")
    case None
    then show ?thesis by (simp add: cost_eq)
  next
    case (Some e)
    then have "ge0 e" by (rule energy_ge0)
    then have "truthy (Some e) \<longleftrightarrow> e \<noteq> Fin 0" by (rule ge0_truthy)
    with Some show ?thesis by (simp add: cost_eq)
  qed
  show "energy (calculateAll
            \<lparr>voltage = Fin 0, current = Fin 0, power_w = Fin 1000, time = Fin 5,
             tariff = Fin (17 / 2)\<rparr>) = Some (Fin 5)
       \<and> cost (calculateAll
            \<lparr>voltage = Fin 0, current = Fin 0, power_w = Fin 1000, time = Fin 5,
             tariff = Fin (17 / 2)\<rparr>) = Some (Fin (85 / 2))"
    by (simp add: calculateAll_def js_or_def Let_def round64_values)
qed

text \<open>Voltage 250, current 2, 4 hours at tariff 8.5: energy 2 and cost 17.\<close>

theorem cost_from_nonzero_energy_witness:
  "hasValidInputs
     \<lparr>voltage = Fin 250, current = Fin 2, power_w = Fin 0, time = Fin 4,
      tariff = Fin (17 / 2)\<rparr>
   \<and> energy (calculateAll
        \<lparr>voltage = Fin 250, current = Fin 2, power_w = Fin 0, time = Fin 4,
         tariff = Fin (17 / 2)\<rparr>) = Some (Fin 2)
   \<and> cost (calculateAll
        \<lparr>voltage = Fin 250, current = Fin 2, power_w = Fin 0, time = Fin 4,
         tariff = Fin (17 / 2)\<rparr>) = Some (Fin 17)"
proof -
  let ?r = "\<lparr>voltage = Fin 250, current = Fin 2, power_w = Fin 0, time = Fin 4,
      tariff = Fin (17 / 2)\<rparr>"
  have h: "hasValidInputs ?r" by (simp add: hasValidInputs_def object_values_def)
  have e: "energy (calculateAll ?r) = Some (Fin 2)"
    by (simp add: calculateAll_def js_or_def Let_def round64_values)
  from cost_from_nonzero_energy [OF h]
  have "cost (calculateAll ?r) =
          (case energy (calculateAll ?r) of
             None \<Rightarrow> None
           | Some e \<Rightarrow> if e \<noteq> Fin 0 \<and> gt0 (tariff ?r) then Some (mul64 e (tariff ?r))
                       else None)"
    by (rule conjunct1)
  then have "cost (calculateAll ?r) = Some (Fin 17)"
    by (simp only: e) (simp add: round64_values)
  with h e show ?thesis by simp
qed

section \<open>Usability and the pipeline\<close>

lemma two_positive_usable:
  assumes "f \<noteq> g" "gt0 (field_value f r)" "gt0 (field_value g r)"
  shows "hasValidInputs r"
  using assms by (cases f; cases g; simp add: hasValidInputs_def object_values_def)

lemma usable_two_positive:
  assumes "hasValidInputs r"
  shows "\<exists>f g. f \<noteq> g \<and> gt0 (field_value f r) \<and> gt0 (field_value g r)"
proof (rule ccontr)
  assume "\<not> ?thesis"
  then have no: "\<And>f g. f \<noteq> g \<Longrightarrow> gt0 (field_value f r) \<Longrightarrow> \<not> gt0 (field_value g r)"
    by blast
  have "length (filter (\<lambda>v. gt0 v) (object_values r)) \<le> 1"
    using no [of Voltage Current] no [of Voltage Power] no [of Voltage Time]
      no [of Voltage Tariff] no [of Current Power] no [of Current Time]
      no [of Current Tariff] no [of Power Time] no [of Power Tariff] no [of Time Tariff]
    by (simp add: object_values_def)
  with assms show False by (simp add: hasValidInputs_def)
qed

text \<open>
  Claim C4. A reading is usable exactly when at least two of its five fields are
  strictly positive. For a reading that is not usable, the pipeline does what
  \<open>clearResults\<close> alone does (the engine contributes nothing to the new state): the
  five displays are cleared to undetermined, and neither the history log nor its stored
  copy receives an entry.
\<close>

theorem unusable_reading_cleared:
  "(hasValidInputs r \<longleftrightarrow> (\<exists>f g. f \<noteq> g \<and> gt0 (field_value f r) \<and> gt0 (field_value g r)))
   \<and> (\<not> hasValidInputs (getInputValues parseFloat (inputElements st)) \<longrightarrow>
        performCalculations parseFloat now st = clearResults st
      \<and> resultDisplays (performCalculations parseFloat now st) =
          \<lparr>calculatedPower = None, calculatedCurrent = None,
           calculatedVoltage = None, energy = None, cost = None\<rparr>
      \<and> recentCalculations (performCalculations parseFloat now st) = recentCalculations st
      \<and> storedCalculations (performCalculations parseFloat now st) = storedCalculations st)"
proof (intro conjI impI)
  show "hasValidInputs r \<longleftrightarrow> (\<exists>f g. f \<noteq> g \<and> gt0 (field_value f r) \<and> gt0 (field_value g r))"
    using usable_two_positive two_positive_usable by blast
next
  assume "\<not> hasValidInputs (getInputValues parseFloat (inputElements st))"
  then have eq: "performCalculations parseFloat now st = clearResults st"
    by (simp add: performCalculations_def)
  show "performCalculations parseFloat now st = clearResults st" by (fact eq)
  show "resultDisplays (performCalculations parseFloat now st) =
          \<lparr>calculatedPower = None, calculatedCurrent = None,
           calculatedVoltage = None, energy = None, cost = None\<rparr>"
    by (simp add: eq clearResults_def)
  show "recentCalculations (performCalculations parseFloat now st) = recentCalculations st"
    by (simp add: eq clearResults_def)
  show "storedCalculations (performCalculations parseFloat now st) = storedCalculations st"
    by (simp add: eq clearResults_def)
qed

lemma sample_parseFloat_simps:
  "sample_parseFloat [] = NaN"
  "sample_parseFloat ''abc'' = NaN"
  "sample_parseFloat ''230'' = Fin 230"
  "sample_parseFloat ''2'' = Fin 2"
  "sample_parseFloat ''1000'' = Fin 1000"
  "sample_parseFloat ''5'' = Fin 5"
  "sample_parseFloat ''8.5'' = Fin (17 / 2)"
  by (simp_all add: sample_parseFloat_def)

text \<open>Only the tariff is given, and the power field holds text that is no number.\<close>

theorem unusable_reading_cleared_witness:
  "\<not> hasValidInputs (getInputValues sample_parseFloat
        \<lparr>voltage_value = [], current_value = [], power_value = ''abc'',
         time_value = [], tariff_value = ''8.5''\<rparr>)
   \<and> performCalculations sample_parseFloat ''2024-05-01T10:00:00.000Z''
        \<lparr>inputElements =
           \<lparr>voltage_value = [], current_value = [], power_value = ''abc'',
            time_value = [], tariff_value = ''8.5''\<rparr>,
         resultDisplays =
           \<lparr>calculatedPower = Some (Fin 460), calculatedCurrent = Some (Fin 2),
            calculatedVoltage = Some (Fin 230), energy = None, cost = None\<rparr>,
         chartData = Some [Fin 460, Fin 2, Fin 230, Fin 0, Fin 0],
         recentCalculations = [],
         storedCalculations = None\<rparr>
     = \<lparr>inputElements =
           \<lparr>voltage_value = [], current_value = [], power_value = ''abc'',
            time_value = [], tariff_value = ''8.5''\<rparr>,
         resultDisplays =
           \<lparr>calculatedPower = None, calculatedCurrent = None,
            calculatedVoltage = None, energy = None, cost = None\<rparr>,
         chartData = Some [Fin 460, Fin 2, Fin 230, Fin 0, Fin 0],
         recentCalculations = [],
         storedCalculations = None\<rparr>"
proof -
  let ?els = "\<lparr>voltage_value = [], current_value = [], power_value = ''abc'',
         time_value = [], tariff_value = ''8.5''\<rparr>"
  let ?st = "\<lparr>inputElements = ?els,
         resultDisplays =
           \<lparr>calculatedPower = Some (Fin 460), calculatedCurrent = Some (Fin 2),
            calculatedVoltage = Some (Fin 230), energy = None, cost = None\<rparr>,
         chartData = Some [Fin 460, Fin 2, Fin 230, Fin 0, Fin 0],
         recentCalculations = [],
         storedCalculations = None\<rparr>"
  have h: "\<not> hasValidInputs (getInputValues sample_parseFloat (inputElements ?st))"
    by (simp add: hasValidInputs_def object_values_def getInputValues_def js_or_def
        sample_parseFloat_simps)
  from unusable_reading_cleared [of _ sample_parseFloat ?st "''2024-05-01T10:00:00.000Z''"] h
  have "performCalculations sample_parseFloat ''2024-05-01T10:00:00.000Z'' ?st = clearResults ?st"
    by blast
  with h show ?thesis by (simp add: clearResults_def)
qed


section \<open>The history log\<close>

lemma saveCalculation_log:
  "recentCalculations (saveCalculation now ins res st) =
     take 10 (\<lparr>timestamp = now, inputs = ins, results = res\<rparr> # recentCalculations st)"
  by (simp add: saveCalculation_def Let_def)

lemma record_all_log:
  assumes "ops \<noteq> [] \<or> length (recentCalculations st) \<le> 10"
  shows "recentCalculations (record_all ops st) =
           take 10 (rev (map entry_of ops) @ recentCalculations st)"
  using assms
proof (induction ops arbitrary: st)
  case Nil
  then show ?case by (simp add: record_all_def)
next
  case (Cons op ops)
  obtain now ins res where op: "op = (now, ins, res)" by (cases op) auto
  let ?st = "saveCalculation now ins res st"
  have "length (recentCalculations ?st) \<le> 10" by (simp add: saveCalculation_log)
  then have "recentCalculations (record_all ops ?st)
          = take 10 (rev (map entry_of ops) @ recentCalculations ?st)"
    using Cons.IH [of ?st] by simp
  also have "\<dots> = take 10 (rev (map entry_of ops) @ entry_of op # recentCalculations st)"
    by (simp add: saveCalculation_log op entry_of_def take_Cons' min_def split: nat.splits)
  finally show ?case by (simp add: record_all_def op)
qed

text \<open>
  Claim C5. The history log is bounded at 10 entries under every sequence of record
  operations: a record puts the new entry, with the time of the call, at the front and
  keeps the 10 most recent, so the log never exceeds 10 entries, and an entry added to a
  log of 10 evicts the oldest one (the last of the list).
\<close>

theorem history_bounded:
  "length (recentCalculations (saveCalculation now ins res st)) \<le> 10
   \<and> hd (recentCalculations (saveCalculation now ins res st)) =
       \<lparr>timestamp = now, inputs = ins, results = res\<rparr>
   \<and> (ops \<noteq> [] \<or> length (recentCalculations st) \<le> 10 \<longrightarrow>
        recentCalculations (record_all ops st) =
          take 10 (rev (map entry_of ops) @ recentCalculations st)
      \<and> length (recentCalculations (record_all ops st)) \<le> 10)
   \<and> (length (recentCalculations st) = 10 \<longrightarrow>
        recentCalculations (saveCalculation now ins res st) =
          \<lparr>timestamp = now, inputs = ins, results = res\<rparr> # butlast (recentCalculations st))"
proof (intro conjI impI)
  show "length (recentCalculations (saveCalculation now ins res st)) \<le> 10"
    by (simp add: saveCalculation_log)
  show "hd (recentCalculations (saveCalculation now ins res st)) =
          \<lparr>timestamp = now, inputs = ins, results = res\<rparr>"
    by (simp add: saveCalculation_log)
next
  assume a: "ops \<noteq> [] \<or> length (recentCalculations st) \<le> 10"
  then show eq: "recentCalculations (record_all ops st) =
          take 10 (rev (map entry_of ops) @ recentCalculations st)"
    by (rule record_all_log)
  show "length (recentCalculations (record_all ops st)) \<le> 10"
    by (simp add: eq)
next
  assume "length (recentCalculations st) = 10"
  then have "take 9 (recentCalculations st) = butlast (recentCalculations st)"
    by (simp add: butlast_conv_take)
  then show "recentCalculations (saveCalculation now ins res st) =
          \<lparr>timestamp = now, inputs = ins, results = res\<rparr> # butlast (recentCalculations st)"
    by (simp add: saveCalculation_log)
qed

text \<open>An eleventh record on a log of ten: the entry of time \<open>t1\<close>, the oldest, is the
  one that leaves.\<close>

theorem history_bounded_witness:
  "map timestamp (recentCalculations (record_all
      [(''t11'', \<lparr>voltage = Fin 230, current = Fin 2, power_w = Fin 0, time = Fin 0, tariff = Fin 0\<rparr>,
        calculateAll \<lparr>voltage = Fin 230, current = Fin 2, power_w = Fin 0, time = Fin 0, tariff = Fin 0\<rparr>)]
      \<lparr>inputElements =
         \<lparr>voltage_value = ''230'', current_value = ''2'', power_value = [],
          time_value = [], tariff_value = []\<rparr>,
       resultDisplays =
         calculateAll \<lparr>voltage = Fin 230, current = Fin 2, power_w = Fin 0, time = Fin 0, tariff = Fin 0\<rparr>,
       chartData = None,
       recentCalculations =
         map (\<lambda>t. \<lparr>timestamp = t,
                   inputs = \<lparr>voltage = Fin 230, current = Fin 2, power_w = Fin 0, time = Fin 0, tariff = Fin 0\<rparr>,
                   results = calculateAll
                     \<lparr>voltage = Fin 230, current = Fin 2, power_w = Fin 0, time = Fin 0, tariff = Fin 0\<rparr>\<rparr>)
           [''t10'', ''t9'', ''t8'', ''t7'', ''t6'', ''t5'', ''t4'', ''t3'', ''t2'', ''t1''],
       storedCalculations = None\<rparr>))
   = [''t11'', ''t10'', ''t9'', ''t8'', ''t7'', ''t6'', ''t5'', ''t4'', ''t3'', ''t2'']"
proof -
  let ?r = "\<lparr>voltage = Fin 230, current = Fin 2, power_w = Fin 0, time = Fin 0, tariff = Fin 0\<rparr>"
  let ?log = "map (\<lambda>t. \<lparr>timestamp = t, inputs = ?r, results = calculateAll ?r\<rparr>)
           [''t10'', ''t9'', ''t8'', ''t7'', ''t6'', ''t5'', ''t4'', ''t3'', ''t2'', ''t1'']"
  let ?st = "\<lparr>inputElements =
         \<lparr>voltage_value = ''230'', current_value = ''2'', power_value = [],
          time_value = [], tariff_value = []\<rparr>,
       resultDisplays = calculateAll ?r,
       chartData = None,
       recentCalculations = ?log,
       storedCalculations = None\<rparr>"
  let ?ops = "[(''t11'', ?r, calculateAll ?r)]"
  have h1: "?ops \<noteq> [] \<or> length (recentCalculations ?st) \<le> 10" by simp
  have h2: "length (recentCalculations ?st) = 10" by simp
  from history_bounded [of "''t11''" ?r "calculateAll ?r" ?st ?ops] h1 h2
  have "recentCalculations (record_all ?ops ?st) =
          take 10 (rev (map entry_of ?ops) @ recentCalculations ?st)"
    by blast
  then show ?thesis by (simp add: entry_of_def)
qed

section \<open>Consistency of the three electrical quantities\<close>

text \<open>
  Claim C6, as stated, fails: with voltage 10, current 2 and power 100 all supplied,
  the reading is usable, the three outputs are determined (20, 50 and 10), and the
  derived power is not the product of derived voltage and derived current.
\<close>

theorem consistency_counterexample:
  "hasValidInputs
     \<lparr>voltage = Fin 10, current = Fin 2, power_w = Fin 100, time = Fin 0, tariff = Fin 0\<rparr>
   \<and> calculatedPower (calculateAll
        \<lparr>voltage = Fin 10, current = Fin 2, power_w = Fin 100, time = Fin 0, tariff = Fin 0\<rparr>)
       = Some (Fin 20)
   \<and> calculatedVoltage (calculateAll
        \<lparr>voltage = Fin 10, current = Fin 2, power_w = Fin 100, time = Fin 0, tariff = Fin 0\<rparr>)
       = Some (Fin 50)
   \<and> calculatedCurrent (calculateAll
        \<lparr>voltage = Fin 10, current = Fin 2, power_w = Fin 100, time = Fin 0, tariff = Fin 0\<rparr>)
       = Some (Fin 10)
   \<and> mul64 (Fin 50) (Fin 10) = Fin 500
   \<and> Fin 20 \<noteq> Fin 500"
  by (simp add: hasValidInputs_def object_values_def calculateAll_def Let_def round64_values)

text \<open>
  Claim C6, amended. For every usable reading whose derivation determines power,
  voltage and current, and whose raw voltage, current and power are not all three
  positive: two of the outputs are the two positive raw fields, passed through, and the
  third is reconstructed from those two outputs by the product or quotient of the
  host, so that one of power = voltage times current, current = power over voltage,
  voltage = power over current holds between the outputs as computed.
\<close>

theorem consistency_of_reconstruction:
  assumes "hasValidInputs r"
    and P: "calculatedPower (calculateAll r) = Some p"
    and V: "calculatedVoltage (calculateAll r) = Some v"
    and C: "calculatedCurrent (calculateAll r) = Some c"
    and N: "\<not> (gt0 (voltage r) \<and> gt0 (current r) \<and> gt0 (power_w r))"
  shows "v = voltage r \<and> c = current r \<and> p = mul64 v c
       \<or> p = power_w r \<and> v = voltage r \<and> c = div64 p v
       \<or> p = power_w r \<and> c = current r \<and> v = div64 p c"
proof (cases "gt0 (voltage r)")
  case vpos: True
  show ?thesis
  proof (cases "gt0 (current r)")
    case True
    with vpos N have "\<not> gt0 (power_w r)" by simp
    with vpos True P V C show ?thesis
      by (simp add: calculatedPower_eq calculatedVoltage_eq calculatedCurrent_eq)
  next
    case cneg: False
    show ?thesis
    proof (cases "gt0 (power_w r)")
      case True
      with vpos cneg P V C show ?thesis
        by (auto simp add: calculatedPower_eq calculatedVoltage_eq calculatedCurrent_eq)
    next
      case False
      with cneg P show ?thesis by (simp add: calculatedPower_eq)
    qed
  qed
next
  case vneg: False
  show ?thesis
  proof (cases "gt0 (current r) \<and> gt0 (power_w r)")
    case True
    with vneg P V C show ?thesis
      by (auto simp add: calculatedPower_eq calculatedVoltage_eq calculatedCurrent_eq)
  next
    case False
    with vneg V show ?thesis by (auto simp add: calculatedVoltage_eq split: if_splits)
  qed
qed

text \<open>Voltage 250 and current 2 with no power: voltage and current are passed through
  and the power 500 is their product.\<close>

theorem consistency_of_reconstruction_witness:
  "hasValidInputs
     \<lparr>voltage = Fin 250, current = Fin 2, power_w = Fin 0, time = Fin 0, tariff = Fin 0\<rparr>
   \<and> \<not> gt0 (Fin 0)
   \<and> calculatedPower (calculateAll
        \<lparr>voltage = Fin 250, current = Fin 2, power_w = Fin 0, time = Fin 0, tariff = Fin 0\<rparr>)
       = Some (Fin 500)
   \<and> calculatedVoltage (calculateAll
        \<lparr>voltage = Fin 250, current = Fin 2, power_w = Fin 0, time = Fin 0, tariff = Fin 0\<rparr>)
       = Some (Fin 250)
   \<and> calculatedCurrent (calculateAll
        \<lparr>voltage = Fin 250, current = Fin 2, power_w = Fin 0, time = Fin 0, tariff = Fin 0\<rparr>)
       = Some (Fin 2)
   \<and> Fin 500 = mul64 (Fin 250) (Fin 2)"
proof -
  let ?r = "\<lparr>voltage = Fin 250, current = Fin 2, power_w = Fin 0, time = Fin 0,
      tariff = Fin 0\<rparr>"
  have h: "hasValidInputs ?r" by (simp add: hasValidInputs_def object_values_def)
  have P: "calculatedPower (calculateAll ?r) = Some (Fin 500)"
    by (simp add: calculatedPower_eq round64_values)
  have V: "calculatedVoltage (calculateAll ?r) = Some (Fin 250)"
    by (simp add: calculatedVoltage_eq)
  have C: "calculatedCurrent (calculateAll ?r) = Some (Fin 2)"
    by (simp add: calculatedCurrent_eq)
  have N: "\<not> (gt0 (voltage ?r) \<and> gt0 (current ?r) \<and> gt0 (power_w ?r))" by simp
  from consistency_of_reconstruction [OF h P V C N]
  have "Fin 500 = mul64 (Fin 250) (Fin 2)" by simp
  with h P V C show ?thesis by simp
qed

section \<open>The engine has no memory\<close>

lemma performCalculations_displays:
  "resultDisplays (performCalculations parseFloat now st) =
     (if hasValidInputs (getInputValues parseFloat (inputElements st))
      then calculateAll (getInputValues parseFloat (inputElements st))
      else \<lparr>calculatedPower = None, calculatedCurrent = None,
            calculatedVoltage = None, energy = None, cost = None\<rparr>)"
  by (simp add: performCalculations_def Let_def clearResults_def saveCalculation_def
      updateChart_def displayResults_def split: option.splits)

lemma performCalculations_recorded:
  assumes "hasValidInputs (getInputValues parseFloat (inputElements st))"
  shows "hd (recentCalculations (performCalculations parseFloat now st)) =
           \<lparr>timestamp = now,
            inputs = getInputValues parseFloat (inputElements st),
            results = calculateAll (getInputValues parseFloat (inputElements st))\<rparr>"
  using assms by (simp add: performCalculations_def Let_def saveCalculation_log)

text \<open>
  Claim C7. The derivation engine is deterministic and stateless: two runs of the
  pipeline on identical readings, from any two states (whatever was displayed, charted
  or recorded before) and at any two times, display the same derivation, and for a
  usable reading record the same derivation, which is that of \<open>calculateAll\<close>.
\<close>

theorem engine_stateless:
  assumes "getInputValues parseFloat (inputElements s1) =
           getInputValues parseFloat (inputElements s2)"
  shows "resultDisplays (performCalculations parseFloat t1 s1) =
           resultDisplays (performCalculations parseFloat t2 s2)
       \<and> (hasValidInputs (getInputValues parseFloat (inputElements s1)) \<longrightarrow>
            results (hd (recentCalculations (performCalculations parseFloat t1 s1))) =
              calculateAll (getInputValues parseFloat (inputElements s1))
          \<and> results (hd (recentCalculations (performCalculations parseFloat t2 s2))) =
              calculateAll (getInputValues parseFloat (inputElements s1)))"
proof (intro conjI impI)
  show "resultDisplays (performCalculations parseFloat t1 s1) =
          resultDisplays (performCalculations parseFloat t2 s2)"
    by (simp only: performCalculations_displays assms)
next
  assume u: "hasValidInputs (getInputValues parseFloat (inputElements s1))"
  then show "results (hd (recentCalculations (performCalculations parseFloat t1 s1))) =
               calculateAll (getInputValues parseFloat (inputElements s1))"
    by (simp add: performCalculations_recorded)
  from u have "hasValidInputs (getInputValues parseFloat (inputElements s2))"
    by (simp only: assms)
  then show "results (hd (recentCalculations (performCalculations parseFloat t2 s2))) =
               calculateAll (getInputValues parseFloat (inputElements s1))"
    by (simp add: performCalculations_recorded assms)
qed

text \<open>The same inputs (1000 W for 5 h at tariff 8.5) in a fresh state and in a state
  that already holds another display, a chart and one recorded entry.\<close>

theorem engine_stateless_witness:
  "hasValidInputs (getInputValues sample_parseFloat
      \<lparr>voltage_value = [], current_value = [], power_value = ''1000'',
       time_value = ''5'', tariff_value = ''8.5''\<rparr>)
   \<and> resultDisplays (performCalculations sample_parseFloat ''2024-05-01T10:00:00.000Z''
      \<lparr>inputElements =
         \<lparr>voltage_value = [], current_value = [], power_value = ''1000'',
          time_value = ''5'', tariff_value = ''8.5''\<rparr>,
       resultDisplays =
         \<lparr>calculatedPower = None, calculatedCurrent = None,
          calculatedVoltage = None, energy = None, cost = None\<rparr>,
       chartData = None,
       recentCalculations = [],
       storedCalculations = None\<rparr>)
   = resultDisplays (performCalculations sample_parseFloat ''2024-05-02T18:30:00.000Z''
      \<lparr>inputElements =
         \<lparr>voltage_value = [], current_value = [], power_value = ''1000'',
          time_value = ''5'', tariff_value = ''8.5''\<rparr>,
       resultDisplays =
         \<lparr>calculatedPower = Some (Fin 460), calculatedCurrent = Some (Fin 2),
          calculatedVoltage = Some (Fin 230), energy = None, cost = None\<rparr>,
       chartData = Some [Fin 460, Fin 2, Fin 230, Fin 0, Fin 0],
       recentCalculations =
         [\<lparr>timestamp = ''2024-05-01T09:00:00.000Z'',
           inputs = \<lparr>voltage = Fin 230, current = Fin 2, power_w = Fin 0, time = Fin 0, tariff = Fin 0\<rparr>,
           results =
             \<lparr>calculatedPower = Some (Fin 460), calculatedCurrent = Some (Fin 2),
              calculatedVoltage = Some (Fin 230), energy = None, cost = None\<rparr>\<rparr>],
       storedCalculations = None\<rparr>)
   \<and> results (hd (recentCalculations
        (performCalculations sample_parseFloat ''2024-05-02T18:30:00.000Z''
      \<lparr>inputElements =
         \<lparr>voltage_value = [], current_value = [], power_value = ''1000'',
          time_value = ''5'', tariff_value = ''8.5''\<rparr>,
       resultDisplays =
         \<lparr>calculatedPower = Some (Fin 460), calculatedCurrent = Some (Fin 2),
          calculatedVoltage = Some (Fin 230), energy = None, cost = None\<rparr>,
       chartData = Some [Fin 460, Fin 2, Fin 230, Fin 0, Fin 0],
       recentCalculations =
         [\<lparr>timestamp = ''2024-05-01T09:00:00.000Z'',
           inputs = \<lparr>voltage = Fin 230, current = Fin 2, power_w = Fin 0, time = Fin 0, tariff = Fin 0\<rparr>,
           results =
             \<lparr>calculatedPower = Some (Fin 460), calculatedCurrent = Some (Fin 2),
              calculatedVoltage = Some (Fin 230), energy = None, cost = None\<rparr>\<rparr>],
       storedCalculations = None\<rparr>)))
     = \<lparr>calculatedPower = Some (Fin 1000), calculatedCurrent = None,
        calculatedVoltage = None, energy = Some (Fin 5), cost = Some (Fin (85 / 2))\<rparr>"
proof -
  let ?els = "\<lparr>voltage_value = [], current_value = [], power_value = ''1000'',
       time_value = ''5'', tariff_value = ''8.5''\<rparr>"
  let ?s1 = "\<lparr>inputElements = ?els,
       resultDisplays =
         \<lparr>calculatedPower = None, calculatedCurrent = None,
          calculatedVoltage = None, energy = None, cost = None\<rparr>,
       chartData = None,
       recentCalculations = [],
       storedCalculations = None\<rparr>"
  let ?s2 = "\<lparr>inputElements = ?els,
       resultDisplays =
         \<lparr>calculatedPower = Some (Fin 460), calculatedCurrent = Some (Fin 2),
          calculatedVoltage = Some (Fin 230), energy = None, cost = None\<rparr>,
       chartData = Some [Fin 460, Fin 2, Fin 230, Fin 0, Fin 0],
       recentCalculations =
         [\<lparr>timestamp = ''2024-05-01T09:00:00.000Z'',
           inputs = \<lparr>voltage = Fin 230, current = Fin 2, power_w = Fin 0, time = Fin 0, tariff = Fin 0\<rparr>,
           results =
             \<lparr>calculatedPower = Some (Fin 460), calculatedCurrent = Some (Fin 2),
              calculatedVoltage = Some (Fin 230), energy = None, cost = None\<rparr>\<rparr>],
       storedCalculations = None\<rparr>"
  have g: "getInputValues sample_parseFloat ?els =
             \<lparr>voltage = Fin 0, current = Fin 0, power_w = Fin 1000, time = Fin 5, tariff = Fin (17 / 2)\<rparr>"
    by (simp add: getInputValues_def js_or_def sample_parseFloat_def)
  have eq: "getInputValues sample_parseFloat (inputElements ?s1) =
            getInputValues sample_parseFloat (inputElements ?s2)"
    by simp
  have h: "hasValidInputs (getInputValues sample_parseFloat (inputElements ?s1))"
    by (simp add: g hasValidInputs_def object_values_def)
  have v: "calculateAll (getInputValues sample_parseFloat (inputElements ?s1)) =
             \<lparr>calculatedPower = Some (Fin 1000), calculatedCurrent = None,
              calculatedVoltage = None, energy = Some (Fin 5), cost = Some (Fin (85 / 2))\<rparr>"
    by (simp add: g calculateAll_def js_or_def Let_def round64_values)
  from engine_stateless [OF eq, of "''2024-05-01T10:00:00.000Z''" "''2024-05-02T18:30:00.000Z''"] h
  have a: "resultDisplays (performCalculations sample_parseFloat ''2024-05-01T10:00:00.000Z'' ?s1)
           = resultDisplays (performCalculations sample_parseFloat ''2024-05-02T18:30:00.000Z'' ?s2)"
    and b: "results (hd (recentCalculations
              (performCalculations sample_parseFloat ''2024-05-02T18:30:00.000Z'' ?s2)))
            = calculateAll (getInputValues sample_parseFloat (inputElements ?s1))"
    by blast+
  from h have h': "hasValidInputs (getInputValues sample_parseFloat ?els)" by simp
  from b v have b': "results (hd (recentCalculations
              (performCalculations sample_parseFloat ''2024-05-02T18:30:00.000Z'' ?s2)))
            = \<lparr>calculatedPower = Some (Fin 1000), calculatedCurrent = None,
              calculatedVoltage = None, energy = Some (Fin 5), cost = Some (Fin (85 / 2))\<rparr>"
    by (simp only:)
  from h' a b' show ?thesis by (intro conjI)
qed

section \<open>Parsing of the input fields\<close>

text \<open>
  Claim C8. Each of the five fields of the reading is the number parsed from the raw
  string of its input element, and a string that fails to parse (the parser answers
  \<open>NaN\<close>, as it does for an empty or non-numeric string) gives the field the value
  zero; an infinite parse result is kept. \<open>getInputValues\<close> is a total function into
  readings: it has no error result.
\<close>

theorem getInputValues_parse_failure:
  "field_value f (getInputValues parseFloat els) =
     (if parseFloat (raw_value f els) = NaN then Fin 0 else parseFloat (raw_value f els))
   \<and> (parseFloat (raw_value f els) = NaN \<longrightarrow>
        field_value f (getInputValues parseFloat els) = Fin 0)"
  by (cases f; cases "parseFloat (raw_value f els)")
     (simp_all add: getInputValues_def js_or_def)

text \<open>An empty power field beside a voltage of 230.\<close>

theorem getInputValues_parse_failure_witness:
  "sample_parseFloat (raw_value Power
      \<lparr>voltage_value = ''230'', current_value = ''abc'', power_value = [],
       time_value = [], tariff_value = ''8.5''\<rparr>) = NaN
   \<and> field_value Power (getInputValues sample_parseFloat
      \<lparr>voltage_value = ''230'', current_value = ''abc'', power_value = [],
       time_value = [], tariff_value = ''8.5''\<rparr>) = Fin 0"
proof -
  let ?els = "\<lparr>voltage_value = ''230'', current_value = ''abc'', power_value = [],
       time_value = [], tariff_value = ''8.5''\<rparr>"
  have h: "sample_parseFloat (raw_value Power ?els) = NaN"
    by (simp add: sample_parseFloat_def)
  from getInputValues_parse_failure [of Power sample_parseFloat ?els] h
  have "field_value Power (getInputValues sample_parseFloat ?els) = Fin 0"
    by blast
  with h show ?thesis by blast
qed

section \<open>Sign of the outputs and negative inputs\<close>

text \<open>
  Claim C9, as stated, fails. With voltage and current both \<open>2 ^ -600\<close> the derived
  power is determined and is zero, not strictly positive. With power \<open>2 ^ -1074\<close> and
  time 1 the energy is determined and is zero, so the truthiness test of the cost
  branch is false of an energy that is determined.
\<close>

theorem determined_positive_counterexample:
  "calculatedPower (calculateAll
      \<lparr>voltage = Fin (1 / 2 ^ 600), current = Fin (1 / 2 ^ 600), power_w = Fin 0,
       time = Fin 0, tariff = Fin 0\<rparr>) = Some (Fin 0)
   \<and> \<not> gt0 (Fin 0)
   \<and> energy (calculateAll
        \<lparr>voltage = Fin 0, current = Fin 0, power_w = Fin (1 / 2 ^ 1074), time = Fin 1,
         tariff = Fin 0\<rparr>) = Some (Fin 0)
   \<and> \<not> truthy (Some (Fin 0))"
proof -
  define s where "s = (1::real) / 2 ^ 600"
  define w where "w = (1::real) / 2 ^ 1074"
  let ?r = "\<lparr>voltage = Fin s, current = Fin s, power_w = Fin 0, time = Fin 0,
      tariff = Fin 0\<rparr>"
  let ?q = "\<lparr>voltage = Fin 0, current = Fin 0, power_w = Fin w, time = Fin 1,
      tariff = Fin 0\<rparr>"
  have spos: "0 < s" by (simp add: s_def)
  have wpos: "0 < w" by (simp add: w_def)
  have u: "round64 (s * s) = Fin 0"
    unfolding s_def by (rule round64_underflow) simp_all
  have rw: "round64 w = Fin w" unfolding w_def by (rule round64_least_subnormal)
  have uw: "round64 (w / 1000) = Fin 0"
    unfolding w_def by (rule round64_underflow) simp_all
  have p: "calculatedPower (calculateAll ?r) = Some (Fin 0)"
    by (simp add: calculatedPower_eq spos u)
  have "calculatedPower (calculateAll ?q) = Some (Fin w)"
    by (simp add: calculatedPower_eq wpos)
  then have "js_or (calculatedPower (calculateAll ?q)) (power_w ?q) = Fin w"
    using wpos by (simp add: js_or_def)
  then have en: "energy (calculateAll ?q) = Some (Fin 0)"
    by (simp only: energy_eq) (simp add: wpos rw uw)
  show ?thesis unfolding s_def [symmetric] w_def [symmetric] using p en by simp
qed

text \<open>
  Claim C9, amended. For every reading of finite numbers, every determined field of
  the derivation is zero, positive or plus infinity, never negative and never
  \<open>NaN\<close>; and, for every reading, the truthiness test on the energy in the cost
  branch holds exactly when the energy is determined and not zero.
\<close>

theorem determined_not_negative:
  "(finite_reading r \<longrightarrow> list_all ge0 (determined_values (calculateAll r)))
   \<and> (truthy (energy (calculateAll r)) \<longleftrightarrow>
        energy (calculateAll r) \<noteq> None \<and> energy (calculateAll r) \<noteq> Some (Fin 0))"
proof (intro conjI impI)
  assume f: "finite_reading r"
  have "ge0 x" if "x \<in> set (determined_values (calculateAll r))" for x
    using that f calculatedPower_ge0 calculatedCurrent_ge0 calculatedVoltage_ge0
      energy_ge0 cost_ge0
    by (auto simp: determined_values_iff)
  then show "list_all ge0 (determined_values (calculateAll r))"
    by (simp add: list_all_iff)
next
  show "truthy (energy (calculateAll r)) \<longleftrightarrow>
          energy (calculateAll r) \<noteq> None \<and> energy (calculateAll r) \<noteq> Some (Fin 0)"
  proof (cases "energy (calculateAll r)")
    case None
    then show ?thesis by simp
  next
    case (Some e)
    then have "ge0 e" by (rule energy_ge0)
    then have "truthy (Some e) \<longleftrightarrow> e \<noteq> Fin 0" by (rule ge0_truthy)
    with Some show ?thesis by simp
  qed
qed

text \<open>All five inputs given: voltage 10, current 2, power 100, 50 hours, tariff 8.5
  determine all five outputs.\<close>

theorem determined_not_negative_witness:
  "finite_reading
     \<lparr>voltage = Fin 10, current = Fin 2, power_w = Fin 100, time = Fin 50,
      tariff = Fin (17 / 2)\<rparr>
   \<and> determined_values (calculateAll
        \<lparr>voltage = Fin 10, current = Fin 2, power_w = Fin 100, time = Fin 50,
         tariff = Fin (17 / 2)\<rparr>)
       = [Fin 20, Fin 10, Fin 50, Fin 1, Fin (17 / 2)]
   \<and> list_all ge0 [Fin 20, Fin 10, Fin 50, Fin 1, Fin (17 / 2)]"
proof -
  let ?r = "\<lparr>voltage = Fin 10, current = Fin 2, power_w = Fin 100, time = Fin 50,
      tariff = Fin (17 / 2)\<rparr>"
  have f: "finite_reading ?r" by (simp add: finite_reading_def object_values_def)
  have d: "determined_values (calculateAll ?r) = [Fin 20, Fin 10, Fin 50, Fin 1, Fin (17 / 2)]"
    by (simp add: determined_values_def calculateAll_def js_or_def Let_def round64_values)
  from determined_not_negative [of ?r] f
  have "list_all ge0 (determined_values (calculateAll ?r))" by blast
  then have "list_all ge0 [Fin 20, Fin 10, Fin 50, Fin 1, Fin (17 / 2)]"
    by (simp only: d)
  with f d show ?thesis by (intro conjI)
qed

text \<open>
  Claim C10. For every reading and every one of its five fields, replacing a negative
  value of that field (minus infinity included) by zero changes neither the usability
  verdict nor any field of the derivation.
\<close>

theorem negative_as_absent:
  assumes "lt0 (field_value f r)"
  shows "hasValidInputs (set_field f (Fin 0) r) = hasValidInputs r
       \<and> calculateAll (set_field f (Fin 0) r) = calculateAll r"
  using assms
  by (cases f)
     (cases "field_value f r";
      auto simp: hasValidInputs_def object_values_def calculateAll_def Let_def js_or_def)+

text \<open>A voltage of -5 beside power 100, 5 hours and tariff 8.5.\<close>

theorem negative_as_absent_witness:
  "lt0 (field_value Voltage
      \<lparr>voltage = Fin (- 5), current = Fin 0, power_w = Fin 100, time = Fin 5, tariff = Fin (17 / 2)\<rparr>)
   \<and> hasValidInputs \<lparr>voltage = Fin 0, current = Fin 0, power_w = Fin 100, time = Fin 5, tariff = Fin (17 / 2)\<rparr>
       = hasValidInputs \<lparr>voltage = Fin (- 5), current = Fin 0, power_w = Fin 100, time = Fin 5, tariff = Fin (17 / 2)\<rparr>
   \<and> calculateAll \<lparr>voltage = Fin 0, current = Fin 0, power_w = Fin 100, time = Fin 5, tariff = Fin (17 / 2)\<rparr>
       = calculateAll \<lparr>voltage = Fin (- 5), current = Fin 0, power_w = Fin 100, time = Fin 5, tariff = Fin (17 / 2)\<rparr>"
proof -
  let ?r = "\<lparr>voltage = Fin (- 5), current = Fin 0, power_w = Fin 100, time = Fin 5, tariff = Fin (17 / 2)\<rparr>"
  have h: "lt0 (field_value Voltage ?r)" by simp
  show ?thesis using h negative_as_absent [OF h] by simp
qed

end
